theory Spec2Isabelle
  imports Main
begin

section \<open>Errors\<close>

text \<open>
  The DOM error taxonomy thrown by the algorithms (\<open>DOMException.*\<close>), the plain
  \<open>Error\<close> the source throws where an internal invariant is broken
  (\<open>throw new Error("Parent node is null.")\<close>), and the failure of a collaborator that
  is called outside its contract (\<open>ContractError\<close>).
\<close>

datatype error =
    InvalidNodeTypeError
  | IndexSizeError
  | HierarchyRequestError
  | InUseAttributeError
  | SyntaxError
  | NotFoundError
  | InternalError
  | ContractError

section \<open>The node graph\<close>

text \<open>
  Nodes live in an arena and are addressed by stable identifiers. A node owns its child list
  (\<open>childNodes\<close>) and holds a back-reference to its parent (\<open>_parent\<close>); elements
  have a local name, character-data nodes hold \<open>_data\<close>.
\<close>

datatype node_type =
    ElementNode
  | AttributeNode
  | TextNode
  | ProcessingInstructionNode
  | CommentNode
  | DocumentNode
  | DocumentTypeNode
  | DocumentFragmentNode

record node =
  nodeType :: node_type
  localName :: string
  parent :: "nat option"
  childNodes :: "nat list"
  data :: string

record heap =
  node_at :: "nat \<Rightarrow> node"
  next_id :: nat

subsection \<open>Guards\<close>

text \<open>
  Modelled from the spec: the \<open>Guard\<close> predicates (module \<open>util\<close>) test the node-kind tag
  of a node. Text-like (character-data) nodes are Text, ProcessingInstruction and Comment.
\<close>

definition isDocumentTypeNode :: "heap \<Rightarrow> nat \<Rightarrow> bool" where
  "isDocumentTypeNode h n = (nodeType (node_at h n) = DocumentTypeNode)"

definition isCharacterDataNode :: "heap \<Rightarrow> nat \<Rightarrow> bool" where
  "isCharacterDataNode h n =
     (nodeType (node_at h n) = TextNode \<or>
      nodeType (node_at h n) = ProcessingInstructionNode \<or>
      nodeType (node_at h n) = CommentNode)"

definition isDocumentFragmentNode :: "heap \<Rightarrow> nat \<Rightarrow> bool" where
  "isDocumentFragmentNode h n = (nodeType (node_at h n) = DocumentFragmentNode)"

text \<open>
  Modelled from the spec: a guard is a test on any value, and holds only of a node of its
  kind. What the source hands to a guard is a node or, in \<open>setTheStart\<close> and
  \<open>setTheEnd\<close>, the number \<open>node.nodeType\<close>; a number is not a node and has no kind
  tag of its own, so the guard does not hold of it.
\<close>

datatype guard_argument = NodeArgument nat | NumberArgument node_type

definition guardIsDocumentTypeNode :: "heap \<Rightarrow> guard_argument \<Rightarrow> bool" where
  "guardIsDocumentTypeNode h a =
     (case a of NodeArgument n \<Rightarrow> isDocumentTypeNode h n | NumberArgument t \<Rightarrow> False)"

subsection \<open>Tree index\<close>

text \<open>
  Modelled from the spec: the tree queries \<open>dom.tree.*\<close> (rootNode, isAncestorOf, index,
  nodeLength) are not part of the sources at hand. The walk up the parent links is bounded
  by the number of allocated nodes, which is enough in every acyclic graph.
\<close>

fun ancestorsFrom :: "nat \<Rightarrow> (nat \<Rightarrow> node) \<Rightarrow> nat \<Rightarrow> nat list" where
  "ancestorsFrom 0 f n = [n]"
| "ancestorsFrom (Suc k) f n =
     (case parent (f n) of None \<Rightarrow> [n] | Some p \<Rightarrow> n # ancestorsFrom k f p)"

definition inclusiveAncestors :: "heap \<Rightarrow> nat \<Rightarrow> nat list" where
  "inclusiveAncestors h n = ancestorsFrom (next_id h) (node_at h) n"

text \<open>\<open>rootNode(node)\<close>: walk parent links to the topmost ancestor.\<close>

definition rootNode :: "heap \<Rightarrow> nat \<Rightarrow> nat" where
  "rootNode h n = last (inclusiveAncestors h n)"

text \<open>
  \<open>isAncestorOf(node, other, self)\<close>: as the source uses it, \<open>other\<close> appears on the
  ancestor chain of \<open>node\<close>, counting \<open>node\<close> itself when \<open>self\<close> is set.
\<close>

definition isAncestorOf :: "heap \<Rightarrow> nat \<Rightarrow> nat \<Rightarrow> bool \<Rightarrow> bool" where
  "isAncestorOf h n other self =
     (other \<in> set (if self then inclusiveAncestors h n else tl (inclusiveAncestors h n)))"

text \<open>
  \<open>index(node)\<close>: zero-based position among the parent's children. The spec leaves it
  undefined for a parentless node; the model counts no preceding sibling there.
\<close>

definition index :: "heap \<Rightarrow> nat \<Rightarrow> nat" where
  "index h n =
     (case parent (node_at h n) of
        None \<Rightarrow> 0
      | Some p \<Rightarrow> length (takeWhile (\<lambda>c. c \<noteq> n) (childNodes (node_at h p))))"

text \<open>
  \<open>nodeLength(node)\<close>: child count for container nodes, character count for text-like
  nodes, 0 otherwise.
\<close>

definition nodeLength :: "heap \<Rightarrow> nat \<Rightarrow> nat" where
  "nodeLength h n =
     (if nodeType (node_at h n) = DocumentTypeNode \<or> nodeType (node_at h n) = AttributeNode
      then 0
      else if isCharacterDataNode h n then length (data (node_at h n))
      else length (childNodes (node_at h n)))"

section \<open>Boundary points\<close>

datatype BoundaryPosition = Before | Equal | After

type_synonym BoundaryPoint = "nat \<times> nat"

text \<open>The root-to-node path of a node, and two paths with their common prefix removed.\<close>

definition pathTo :: "heap \<Rightarrow> nat \<Rightarrow> nat list" where
  "pathTo h n = rev (inclusiveAncestors h n)"

fun stripCommon :: "nat list \<Rightarrow> nat list \<Rightarrow> nat list \<times> nat list" where
  "stripCommon (x # xs) (y # ys) = (if x = y then stripCommon xs ys else (x # xs, y # ys))"
| "stripCommon xs ys = (xs, ys)"

text \<open>
  Modelled from the spec: \<open>dom.boundaryPoint.position(A, B)\<close> is not part of the sources at
  hand. It is defined only when both nodes belong to the same tree; a call with nodes of two
  trees is outside its contract and has no value (\<open>None\<close>). Within one tree it follows the
  spec's three cases:
  \<^enum> the same node: compare the offsets;
  \<^enum> one node an ancestor of the other: with \<open>c\<close> the ancestor's child that is or contains
    the descendant, the ancestor's point is Before when its offset is at most \<open>index(c)\<close>,
    After otherwise;
  \<^enum> otherwise: compare the sibling indices of the two children of the nearest common
    ancestor that head each node's path.
\<close>

definition position ::
  "heap \<Rightarrow> BoundaryPoint \<Rightarrow> BoundaryPoint \<Rightarrow> BoundaryPosition option" where
  "position h a b =
     (if rootNode h (fst a) \<noteq> rootNode h (fst b) then None
      else if fst a = fst b then
        Some (if snd a = snd b then Equal else if snd a < snd b then Before else After)
      else
        (case stripCommon (pathTo h (fst a)) (pathTo h (fst b)) of
           ([], []) \<Rightarrow> Some Equal
         | ([], c # _) \<Rightarrow> Some (if snd a \<le> index h c then Before else After)
         | (c # _, []) \<Rightarrow> Some (if snd b \<le> index h c then After else Before)
         | (ca # _, cb # _) \<Rightarrow> Some (if index h ca < index h cb then Before else After)))"

section \<open>Outcomes of calls\<close>

text \<open>
  A call returns, throws, or does not come back. The recursive algorithms carry a bound
  on their recursion depth; \<open>Diverged\<close> is the outcome when the bound is used up.
\<close>

datatype 'a result = Returned 'a | Thrown error | Diverged

definition andThen :: "'a result \<Rightarrow> ('a \<Rightarrow> 'b result) \<Rightarrow> 'b result" where
  "andThen m f = (case m of Returned x \<Rightarrow> f x | Thrown e \<Rightarrow> Thrown e | Diverged \<Rightarrow> Diverged)"

section \<open>Ranges\<close>

record range =
  rstart :: BoundaryPoint
  rend :: BoundaryPoint

abbreviation startNode :: "range \<Rightarrow> nat" where "startNode r \<equiv> fst (rstart r)"
abbreviation startOffset :: "range \<Rightarrow> nat" where "startOffset r \<equiv> snd (rstart r)"
abbreviation endNode :: "range \<Rightarrow> nat" where "endNode r \<equiv> fst (rend r)"
abbreviation endOffset :: "range \<Rightarrow> nat" where "endOffset r \<equiv> snd (rend r)"

definition collapsed :: "range \<Rightarrow> bool" where
  "collapsed r = (startNode r = endNode r \<and> startOffset r = endOffset r)"

definition root :: "heap \<Rightarrow> range \<Rightarrow> nat" where
  "root h r = rootNode h (startNode r)"

text \<open>
  \<open>isContained\<close> is a conjunction that stops at its first false conjunct; a call of
  \<open>position\<close> outside its contract makes the call fail.
\<close>

definition isContained :: "heap \<Rightarrow> nat \<Rightarrow> range \<Rightarrow> bool result" where
  "isContained h n r =
     (if rootNode h n \<noteq> root h r then Returned False
      else
        (case position h (n, 0) (rstart r) of
           None \<Rightarrow> Thrown ContractError
         | Some p1 \<Rightarrow>
             if p1 \<noteq> After then Returned False
             else
               (case position h (n, nodeLength h n) (rend r) of
                  None \<Rightarrow> Thrown ContractError
                | Some p2 \<Rightarrow> Returned (p2 = Before))))"

definition isPartiallyContained :: "heap \<Rightarrow> nat \<Rightarrow> range \<Rightarrow> bool" where
  "isPartiallyContained h n r =
     (let startCheck = isAncestorOf h (startNode r) n True;
          endCheck = isAncestorOf h (endNode r) n True
      in (startCheck \<and> \<not> endCheck) \<or> (\<not> startCheck \<and> endCheck))"

text \<open>
  \<open>setTheStart\<close> and \<open>setTheEnd\<close> update the range object in place and may throw. The
  model returns the thrown error, if any, together with the range as the call leaves it.
  The guard of step 1 is handed \<open>node.nodeType\<close>. In the condition of step 4 the call of
  \<open>position\<close> is the left operand of \<open>||\<close> and is evaluated before the roots are
  compared; outside its contract it makes the call fail before anything is assigned.
\<close>

definition setTheStart :: "heap \<Rightarrow> range \<Rightarrow> nat \<Rightarrow> nat \<Rightarrow> error option \<times> range" where
  "setTheStart h r n offset =
     (if guardIsDocumentTypeNode h (NumberArgument (nodeType (node_at h n)))
      then (Some InvalidNodeTypeError, r)
      else if offset > nodeLength h n then (Some IndexSizeError, r)
      else
        let bp = (n, offset)
        in (case position h bp (rend r) of
              None \<Rightarrow> (Some ContractError, r)
            | Some pos \<Rightarrow>
                let r1 = (if pos = After \<or> root h r \<noteq> rootNode h n
                          then r\<lparr>rend := bp\<rparr> else r)
                in (None, r1\<lparr>rstart := bp\<rparr>)))"

definition setTheEnd :: "heap \<Rightarrow> range \<Rightarrow> nat \<Rightarrow> nat \<Rightarrow> error option \<times> range" where
  "setTheEnd h r n offset =
     (if guardIsDocumentTypeNode h (NumberArgument (nodeType (node_at h n)))
      then (Some InvalidNodeTypeError, r)
      else if offset > nodeLength h n then (Some IndexSizeError, r)
      else
        let bp = (n, offset)
        in (case position h bp (rstart r) of
              None \<Rightarrow> (Some ContractError, r)
            | Some pos \<Rightarrow>
                let r1 = (if pos = Before \<or> root h r \<noteq> rootNode h n
                          then r\<lparr>rstart := bp\<rparr> else r)
                in (None, r1\<lparr>rend := bp\<rparr>)))"

section \<open>Node mutation primitives\<close>

text \<open>
  Modelled from the spec: the node mutation primitives (create, clone, substring and replace
  of character data, pre-insert, remove, pre-insertion validity) belong to a collaborator
  whose code is not part of the sources at hand. They are modelled after the contracts of
  the spec's external interfaces and the standard DOM rules those refer to, as functions on
  the node graph. The same collaborator re-clamps the registered live ranges whenever it
  changes the node graph; how it does so is not given, and the model keeps no registry of
  ranges. Accordingly the algorithms below say of a range only what they assign to it
  themselves, and say nothing of a range they leave to that re-clamping.
\<close>

definition updNode :: "heap \<Rightarrow> nat \<Rightarrow> (node \<Rightarrow> node) \<Rightarrow> heap" where
  "updNode h n f = h\<lparr>node_at := (node_at h)(n := f (node_at h n))\<rparr>"

definition allocNode :: "heap \<Rightarrow> node \<Rightarrow> heap \<times> nat" where
  "allocNode h nd = (h\<lparr>node_at := (node_at h)(next_id h := nd), next_id := Suc (next_id h)\<rparr>, next_id h)"

definition create_documentFragment :: "heap \<Rightarrow> heap \<times> nat" where
  "create_documentFragment h =
     allocNode h \<lparr>nodeType = DocumentFragmentNode, localName = [], parent = None,
                  childNodes = [], data = []\<rparr>"

text \<open>\<open>node.clone(node)\<close>, called without the clone-children flag: a detached copy.\<close>

definition node_clone :: "heap \<Rightarrow> nat \<Rightarrow> heap \<times> nat" where
  "node_clone h n =
     allocNode h \<lparr>nodeType = nodeType (node_at h n), localName = localName (node_at h n),
                  parent = None, childNodes = [], data = data (node_at h n)\<rparr>"

definition substringData :: "heap \<Rightarrow> nat \<Rightarrow> nat \<Rightarrow> nat \<Rightarrow> string" where
  "substringData h n offset count = take count (drop offset (data (node_at h n)))"

definition replaceData :: "heap \<Rightarrow> nat \<Rightarrow> nat \<Rightarrow> nat \<Rightarrow> string \<Rightarrow> heap" where
  "replaceData h n offset count newData =
     updNode h n (\<lambda>nd. nd\<lparr>data := take offset (data nd) @ newData @ drop (offset + count) (data nd)\<rparr>)"

definition firstChild :: "heap \<Rightarrow> nat \<Rightarrow> nat option" where
  "firstChild h n = (case childNodes (node_at h n) of [] \<Rightarrow> None | c # _ \<Rightarrow> Some c)"

definition lastChild :: "heap \<Rightarrow> nat \<Rightarrow> nat option" where
  "lastChild h n = (case rev (childNodes (node_at h n)) of [] \<Rightarrow> None | c # _ \<Rightarrow> Some c)"

definition nextSibling :: "heap \<Rightarrow> nat \<Rightarrow> nat option" where
  "nextSibling h n =
     (case parent (node_at h n) of
        None \<Rightarrow> None
      | Some p \<Rightarrow>
          (case dropWhile (\<lambda>c. c \<noteq> n) (childNodes (node_at h p)) of
             _ # s # _ \<Rightarrow> Some s
           | _ \<Rightarrow> None))"

definition previousSibling :: "heap \<Rightarrow> nat \<Rightarrow> nat option" where
  "previousSibling h n =
     (case parent (node_at h n) of
        None \<Rightarrow> None
      | Some p \<Rightarrow>
          (case rev (takeWhile (\<lambda>c. c \<noteq> n) (childNodes (node_at h p))) of
             [] \<Rightarrow> None
           | s # _ \<Rightarrow> Some s))"

text \<open>\<open>mutation.remove(node, parent)\<close>: detach \<open>node\<close> from its parent.\<close>

definition removeNode :: "heap \<Rightarrow> nat \<Rightarrow> heap" where
  "removeNode h n =
     (case parent (node_at h n) of
        None \<Rightarrow> h
      | Some p \<Rightarrow>
          updNode (updNode h p (\<lambda>nd. nd\<lparr>childNodes := filter (\<lambda>c. c \<noteq> n) (childNodes nd)\<rparr>))
            n (\<lambda>nd. nd\<lparr>parent := None\<rparr>))"

definition insertBefore :: "nat list \<Rightarrow> nat option \<Rightarrow> nat list \<Rightarrow> nat list" where
  "insertBefore cs child ns =
     (case child of
        None \<Rightarrow> cs @ ns
      | Some c \<Rightarrow> takeWhile (\<lambda>x. x \<noteq> c) cs @ ns @ dropWhile (\<lambda>x. x \<noteq> c) cs)"

text \<open>
  The standard "insert": a document fragment hands over its children, any other node is
  taken out of its old parent first.
\<close>

definition insertNode :: "heap \<Rightarrow> nat \<Rightarrow> nat \<Rightarrow> nat option \<Rightarrow> heap" where
  "insertNode h n p child =
     (if isDocumentFragmentNode h n then
        let ns = childNodes (node_at h n);
            h1 = updNode h n (\<lambda>nd. nd\<lparr>childNodes := []\<rparr>);
            h2 = updNode h1 p (\<lambda>nd. nd\<lparr>childNodes := insertBefore (childNodes nd) child ns\<rparr>)
        in fold (\<lambda>c hh. updNode hh c (\<lambda>nd. nd\<lparr>parent := Some p\<rparr>)) ns h2
      else
        let h1 = removeNode h n;
            h2 = updNode h1 p (\<lambda>nd. nd\<lparr>childNodes := insertBefore (childNodes nd) child [n]\<rparr>)
        in updNode h2 n (\<lambda>nd. nd\<lparr>parent := Some p\<rparr>))"

definition hasChildOfType :: "heap \<Rightarrow> nat \<Rightarrow> node_type \<Rightarrow> bool" where
  "hasChildOfType h p t = list_ex (\<lambda>c. nodeType (node_at h c) = t) (childNodes (node_at h p))"

definition childrenOfType :: "heap \<Rightarrow> nat \<Rightarrow> node_type \<Rightarrow> nat list" where
  "childrenOfType h p t = filter (\<lambda>c. nodeType (node_at h c) = t) (childNodes (node_at h p))"

definition followingSiblings :: "heap \<Rightarrow> nat \<Rightarrow> nat \<Rightarrow> nat list" where
  "followingSiblings h p c = tl (dropWhile (\<lambda>x. x \<noteq> c) (childNodes (node_at h p)))"

definition precedingSiblings :: "heap \<Rightarrow> nat \<Rightarrow> nat \<Rightarrow> nat list" where
  "precedingSiblings h p c = takeWhile (\<lambda>x. x \<noteq> c) (childNodes (node_at h p))"

definition isDoctypeRef :: "heap \<Rightarrow> nat option \<Rightarrow> bool" where
  "isDoctypeRef h child = (case child of None \<Rightarrow> False | Some c \<Rightarrow> isDocumentTypeNode h c)"

definition doctypeFollows :: "heap \<Rightarrow> nat \<Rightarrow> nat option \<Rightarrow> bool" where
  "doctypeFollows h p child =
     (case child of
        None \<Rightarrow> False
      | Some c \<Rightarrow> list_ex (isDocumentTypeNode h) (followingSiblings h p c))"

definition elementPrecedes :: "heap \<Rightarrow> nat \<Rightarrow> nat option \<Rightarrow> bool" where
  "elementPrecedes h p child =
     (case child of
        None \<Rightarrow> False
      | Some c \<Rightarrow> list_ex (\<lambda>x. nodeType (node_at h x) = ElementNode) (precedingSiblings h p c))"

text \<open>The document-specific part of the standard pre-insertion rules.\<close>

definition documentRejects :: "heap \<Rightarrow> nat \<Rightarrow> nat \<Rightarrow> nat option \<Rightarrow> bool" where
  "documentRejects h n p child =
     (case nodeType (node_at h n) of
        DocumentFragmentNode \<Rightarrow>
          length (childrenOfType h n ElementNode) > 1 \<or> hasChildOfType h n TextNode \<or>
          (length (childrenOfType h n ElementNode) = 1 \<and>
             (hasChildOfType h p ElementNode \<or> isDoctypeRef h child \<or> doctypeFollows h p child))
      | ElementNode \<Rightarrow>
          hasChildOfType h p ElementNode \<or> isDoctypeRef h child \<or> doctypeFollows h p child
      | DocumentTypeNode \<Rightarrow>
          hasChildOfType h p DocumentTypeNode \<or> elementPrecedes h p child \<or>
          (child = None \<and> hasChildOfType h p ElementNode)
      | _ \<Rightarrow> False)"

definition ensurePreInsertionValidity :: "heap \<Rightarrow> nat \<Rightarrow> nat \<Rightarrow> nat option \<Rightarrow> error option" where
  "ensurePreInsertionValidity h n p child =
     (if nodeType (node_at h p) \<notin> {DocumentNode, DocumentFragmentNode, ElementNode}
      then Some HierarchyRequestError
      else if isAncestorOf h p n True then Some HierarchyRequestError
      else if (case child of None \<Rightarrow> False | Some c \<Rightarrow> parent (node_at h c) \<noteq> Some p)
      then Some NotFoundError
      else if nodeType (node_at h n) \<notin>
                {DocumentFragmentNode, DocumentTypeNode, ElementNode, TextNode,
                 ProcessingInstructionNode, CommentNode}
      then Some HierarchyRequestError
      else if (nodeType (node_at h n) = TextNode \<and> nodeType (node_at h p) = DocumentNode) \<or>
              (nodeType (node_at h n) = DocumentTypeNode \<and> nodeType (node_at h p) \<noteq> DocumentNode)
      then Some HierarchyRequestError
      else if nodeType (node_at h p) = DocumentNode \<and> documentRejects h n p child
      then Some HierarchyRequestError
      else None)"

text \<open>\<open>mutation.preInsert(node, parent, child)\<close>; it returns \<open>node\<close>.\<close>

definition preInsert :: "heap \<Rightarrow> nat \<Rightarrow> nat \<Rightarrow> nat option \<Rightarrow> heap result" where
  "preInsert h n p child =
     (case ensurePreInsertionValidity h n p child of
        Some e \<Rightarrow> Thrown e
      | None \<Rightarrow>
          let referenceChild = (if child = Some n then nextSibling h n else child)
          in Returned (insertNode h n p referenceChild))"

text \<open>\<open>parent.append(node)\<close> and \<open>parent.appendChild(node)\<close>: pre-insert before null.\<close>

definition appendChild :: "heap \<Rightarrow> nat \<Rightarrow> nat \<Rightarrow> heap result" where
  "appendChild h p n = preInsert h n p None"

section \<open>Extracting and cloning\<close>

text \<open>
  Steps 5 and 6 of \<open>extract\<close> and \<open>cloneTheContents\<close>: climb from the start node until
  the node is an inclusive ancestor of the end node; a null parent on the way throws.
\<close>

fun commonAncestorFrom :: "nat \<Rightarrow> heap \<Rightarrow> nat \<Rightarrow> nat \<Rightarrow> nat result" where
  "commonAncestorFrom 0 h originalEndNode commonAncestor = Diverged"
| "commonAncestorFrom (Suc k) h originalEndNode commonAncestor =
     (if isAncestorOf h originalEndNode commonAncestor True then Returned commonAncestor
      else
        (case parent (node_at h commonAncestor) of
           None \<Rightarrow> Thrown InternalError
         | Some p \<Rightarrow> commonAncestorFrom k h originalEndNode p))"

text \<open>Steps 7 and 8: the first child of the common ancestor that is partially contained.\<close>

definition firstPartiallyContained :: "heap \<Rightarrow> range \<Rightarrow> nat \<Rightarrow> nat option" where
  "firstPartiallyContained h r commonAncestor =
     (if \<not> isAncestorOf h (endNode r) (startNode r) True
      then find (\<lambda>n. isPartiallyContained h n r) (childNodes (node_at h commonAncestor))
      else None)"

text \<open>
  Steps 9 and 10: the loop \<open>for (let i = childNodes.length - 1; i > 0; i--)\<close> with its
  \<open>break\<close> at the first partially contained child it meets.
\<close>

fun lastPartiallyContainedLoop :: "heap \<Rightarrow> range \<Rightarrow> nat list \<Rightarrow> nat \<Rightarrow> nat option" where
  "lastPartiallyContainedLoop h r cs 0 = None"
| "lastPartiallyContainedLoop h r cs (Suc j) =
     (if isPartiallyContained h (cs ! Suc j) r then Some (cs ! Suc j)
      else lastPartiallyContainedLoop h r cs j)"

definition lastPartiallyContained :: "heap \<Rightarrow> range \<Rightarrow> nat \<Rightarrow> nat option" where
  "lastPartiallyContained h r commonAncestor =
     (if \<not> isAncestorOf h (startNode r) (endNode r) True
      then lastPartiallyContainedLoop h r (childNodes (node_at h commonAncestor))
             (length (childNodes (node_at h commonAncestor)) - 1)
      else None)"

text \<open>Steps 11 and 12: the contained children, in tree order; a doctype among them throws.\<close>

fun containedChildrenOf :: "heap \<Rightarrow> range \<Rightarrow> nat list \<Rightarrow> nat list result" where
  "containedChildrenOf h r [] = Returned []"
| "containedChildrenOf h r (child # cs) =
     andThen (isContained h child r) (\<lambda>contained.
       if contained then
         (if isDocumentTypeNode h child then Thrown HierarchyRequestError
          else andThen (containedChildrenOf h r cs) (\<lambda>rest. Returned (child # rest)))
       else containedChildrenOf h r cs)"

text \<open>
  Step 14 of \<open>extract\<close>: climb from the start node while the parent is non-null and
  \<open>isAncestorOf(originalEndNode, parent)\<close> fails; the source omits the \<open>self\<close> flag here.
\<close>

fun referenceNodeFrom :: "nat \<Rightarrow> heap \<Rightarrow> nat \<Rightarrow> nat \<Rightarrow> nat result" where
  "referenceNodeFrom 0 h originalEndNode referenceNode = Diverged"
| "referenceNodeFrom (Suc k) h originalEndNode referenceNode =
     (case parent (node_at h referenceNode) of
        None \<Rightarrow> Returned referenceNode
      | Some p \<Rightarrow>
          (if \<not> isAncestorOf h originalEndNode p False
           then referenceNodeFrom k h originalEndNode p
           else Returned referenceNode))"

text \<open>
  Steps 13 and 14: the point both ends of the range are set to. In step 14 the new node is
  \<open>referenceNode._parent as NodeInternal\<close>: the cast checks nothing, and the new node is
  null (\<open>None\<close>) when the climb has ended at a parentless node.
\<close>

type_synonym assigned_point = "nat option \<times> nat"

definition newBoundaryPoint :: "heap \<Rightarrow> range \<Rightarrow> assigned_point result" where
  "newBoundaryPoint h r =
     (if isAncestorOf h (endNode r) (startNode r) True
      then Returned (Some (startNode r), startOffset r)
      else
        andThen (referenceNodeFrom (Suc (next_id h)) h (endNode r) (startNode r)) (\<lambda>referenceNode.
          Returned (parent (node_at h referenceNode), 1 + index h referenceNode)))"

definition setData :: "heap \<Rightarrow> nat \<Rightarrow> string \<Rightarrow> heap" where
  "setData h n d = updNode h n (\<lambda>nd. nd\<lparr>data := d\<rparr>)"

fun appendAll :: "heap \<Rightarrow> nat \<Rightarrow> nat list \<Rightarrow> heap result" where
  "appendAll h fragment [] = Returned h"
| "appendAll h fragment (child # cs) =
     andThen (appendChild h fragment child) (\<lambda>h1. appendAll h1 fragment cs)"

fun appendClones :: "heap \<Rightarrow> nat \<Rightarrow> nat list \<Rightarrow> heap result" where
  "appendClones h fragment [] = Returned h"
| "appendClones h fragment (child # cs) =
     (let (h1, clone) = node_clone h child
      in andThen (appendChild h1 fragment clone) (\<lambda>h2. appendClones h2 fragment cs))"

type_synonym extraction = "heap \<Rightarrow> range \<Rightarrow> (nat \<times> heap \<times> assigned_point option) result"

text \<open>
  The body of \<open>extract\<close>; \<open>self\<close> stands for the recursive call \<open>this.extract\<close>. The
  result is the fragment, the node graph as the call leaves it, and the point that step 20
  assigns to both ends of the range; it is \<open>None\<close> when the call returns before step 20
  and assigns nothing to the range.
\<close>

definition extractBody :: "extraction \<Rightarrow> extraction" where
  "extractBody self h0 rng =
     (let (h, fragment) = create_documentFragment h0 in
      if collapsed rng then Returned (fragment, h, None)
      else
        let originalStartNode = startNode rng;
            originalStartOffset = startOffset rng;
            originalEndNode = endNode rng;
            originalEndOffset = endOffset rng
        in
        if originalStartNode = originalEndNode \<and> isCharacterDataNode h originalStartNode then
          (let (h1, clone) = node_clone h originalStartNode;
               h2 = setData h1 clone (substringData h1 originalStartNode originalStartOffset
                                        (originalEndOffset - originalStartOffset))
           in andThen (appendChild h2 fragment clone) (\<lambda>h3.
                Returned (fragment,
                  replaceData h3 originalStartNode originalStartOffset
                    (originalEndOffset - originalStartOffset) [],
                  None)))
        else
          andThen (commonAncestorFrom (Suc (next_id h)) h originalEndNode originalStartNode)
            (\<lambda>commonAncestor.
          let firstPartiallyContainedChild = firstPartiallyContained h rng commonAncestor;
              lastPartiallyContainedChild = lastPartiallyContained h rng commonAncestor
          in
          andThen (containedChildrenOf h rng (childNodes (node_at h commonAncestor)))
            (\<lambda>containedChildren.
          andThen (newBoundaryPoint h rng) (\<lambda>newPoint.
          andThen
            (case firstPartiallyContainedChild of
               None \<Rightarrow> Returned h
             | Some fpc \<Rightarrow>
                 if isCharacterDataNode h fpc then
                   (let (h1, clone) = node_clone h originalStartNode;
                        h2 = setData h1 clone
                               (substringData h1 originalStartNode originalStartOffset
                                  (nodeLength h1 originalStartNode - originalStartOffset))
                    in andThen (appendChild h2 fragment clone) (\<lambda>h3.
                         Returned (replaceData h3 originalStartNode originalStartOffset
                                     (nodeLength h3 originalStartNode - originalStartOffset) [])))
                 else
                   (let (h1, clone) = node_clone h originalStartNode
                    in andThen (appendChild h1 fragment clone) (\<lambda>h2.
                       andThen (self h2 \<lparr>rstart = (originalStartNode, originalStartOffset),
                                         rend = (fpc, nodeLength h2 fpc)\<rparr>)
                         (\<lambda>(subfragment, h3, subrange). appendChild h3 clone subfragment))))
            (\<lambda>h4.
          andThen (appendAll h4 fragment containedChildren) (\<lambda>h5.
          andThen
            (case lastPartiallyContainedChild of
               None \<Rightarrow> Returned h5
             | Some lpc \<Rightarrow>
                 if isCharacterDataNode h5 lpc then
                   (let (h6, clone) = node_clone h5 originalEndNode;
                        h7 = setData h6 clone (substringData h6 originalEndNode 0 originalEndOffset)
                    in andThen (appendChild h7 fragment clone) (\<lambda>h8.
                         Returned (replaceData h8 originalEndNode 0 originalEndOffset [])))
                 else
                   (let (h6, clone) = node_clone h5 lpc
                    in andThen (appendChild h6 fragment clone) (\<lambda>h7.
                       andThen (self h7 \<lparr>rstart = (lpc, 0),
                                         rend = (originalEndNode, originalEndOffset)\<rparr>)
                         (\<lambda>(subfragment, h8, subrange). appendChild h8 clone subfragment))))
            (\<lambda>h9.
          Returned (fragment, h9, Some newPoint))))))))"

fun extractRange :: "nat \<Rightarrow> extraction" where
  "extractRange 0 h rng = Diverged"
| "extractRange (Suc k) h rng = extractBody (extractRange k) h rng"

text \<open>
  The body of \<open>cloneTheContents\<close>; \<open>self\<close> stands for \<open>this.cloneTheContents\<close> and
  \<open>extr\<close> for \<open>this.extract\<close>, which the source calls on the end side. It assigns
  nothing to the range.
\<close>

definition cloneBody :: "extraction \<Rightarrow> extraction \<Rightarrow> extraction" where
  "cloneBody self extr h0 rng =
     (let (h, fragment) = create_documentFragment h0 in
      if collapsed rng then Returned (fragment, h, None)
      else
        let originalStartNode = startNode rng;
            originalStartOffset = startOffset rng;
            originalEndNode = endNode rng;
            originalEndOffset = endOffset rng
        in
        andThen
          (if originalStartNode = originalEndNode \<and> isCharacterDataNode h originalStartNode then
             (let (h1, clone) = node_clone h originalStartNode;
                  h2 = setData h1 clone (substringData h1 originalStartNode originalStartOffset
                                           (originalEndOffset - originalStartOffset))
              in appendChild h2 fragment clone)
           else Returned h)
          (\<lambda>ha.
        andThen (commonAncestorFrom (Suc (next_id ha)) ha originalEndNode originalStartNode)
          (\<lambda>commonAncestor.
        let firstPartiallyContainedChild = firstPartiallyContained ha rng commonAncestor;
            lastPartiallyContainedChild = lastPartiallyContained ha rng commonAncestor
        in
        andThen (containedChildrenOf ha rng (childNodes (node_at ha commonAncestor)))
          (\<lambda>containedChildren.
        andThen
          (case firstPartiallyContainedChild of
             None \<Rightarrow> Returned ha
           | Some fpc \<Rightarrow>
               if isCharacterDataNode ha fpc then
                 (let (h1, clone) = node_clone ha originalStartNode;
                      h2 = setData h1 clone
                             (substringData h1 originalStartNode originalStartOffset
                                (nodeLength h1 originalStartNode - originalStartOffset))
                  in appendChild h2 fragment clone)
               else
                 (let (h1, clone) = node_clone ha originalStartNode
                  in andThen (appendChild h1 fragment clone) (\<lambda>h2.
                     andThen (self h2 \<lparr>rstart = (originalStartNode, originalStartOffset),
                                       rend = (fpc, nodeLength h2 fpc)\<rparr>)
                       (\<lambda>(subfragment, h3, subrange). appendChild h3 clone subfragment))))
          (\<lambda>h4.
        andThen (appendClones h4 fragment containedChildren) (\<lambda>h5.
        andThen
          (case lastPartiallyContainedChild of
             None \<Rightarrow> Returned h5
           | Some lpc \<Rightarrow>
               if isCharacterDataNode h5 lpc then
                 (let (h6, clone) = node_clone h5 originalEndNode;
                      h7 = setData h6 clone (substringData h6 originalEndNode 0 originalEndOffset)
                  in appendChild h7 fragment clone)
               else
                 (let (h6, clone) = node_clone h5 lpc
                  in andThen (appendChild h6 fragment clone) (\<lambda>h7.
                     andThen (extr h7 \<lparr>rstart = (lpc, 0),
                                       rend = (originalEndNode, originalEndOffset)\<rparr>)
                       (\<lambda>(subfragment, h8, subrange). appendChild h8 clone subfragment))))
          (\<lambda>h9. Returned (fragment, h9, None))))))))"

fun cloneTheContents :: "nat \<Rightarrow> extraction" where
  "cloneTheContents 0 h rng = Diverged"
| "cloneTheContents (Suc k) h rng = cloneBody (cloneTheContents k) (extractRange k) h rng"

section \<open>Tree walker\<close>

datatype FilterResult = Accept | Reject | Skip

text \<open>
  A walker owns its root, its current node and its filter. Modelled from the spec:
  \<open>dom.traversal.filter(walker, node)\<close> applies the walker's filter to the node.
\<close>

record TreeWalker =
  walkerRoot :: nat
  current :: nat
  nodeFilter :: "nat \<Rightarrow> FilterResult"

datatype scan = Accepted nat | Exhausted nat

text \<open>
  The inner loop of \<open>traverseSiblings\<close> (\<open>while (sibling)\<close>): it ends with the accepted
  node, or with the node it visited last when no sibling is left.
\<close>

partial_function (option) scanSiblings ::
  "heap \<Rightarrow> TreeWalker \<Rightarrow> bool \<Rightarrow> nat option \<Rightarrow> nat \<Rightarrow> scan option" where
  "scanSiblings h walker next sibling n =
     (case sibling of
        None \<Rightarrow> Some (Exhausted n)
      | Some s \<Rightarrow>
          (if nodeFilter walker s = Accept then Some (Accepted s)
           else
             let sibling1 = (if next then firstChild h s else lastChild h s);
                 sibling2 = (if nodeFilter walker s = Reject \<or> sibling1 = None
                             then (if next then nextSibling h s else previousSibling h s)
                             else sibling1)
             in scanSiblings h walker next sibling2 s))"

text \<open>
  The outer loop (\<open>while (true)\<close>). The result is the returned node (\<open>None\<close> for null) and
  the walker as the call leaves it; the outer \<open>None\<close> of the option type is a walk that
  does not come back.
\<close>

partial_function (option) siblingsLoop ::
  "heap \<Rightarrow> TreeWalker \<Rightarrow> bool \<Rightarrow> nat \<Rightarrow> (nat option \<times> TreeWalker) option" where
  "siblingsLoop h walker next n =
     Option.bind
       (scanSiblings h walker next (if next then nextSibling h n else previousSibling h n) n)
       (\<lambda>sc. case sc of
          Accepted a \<Rightarrow> Some (Some a, walker\<lparr>current := a\<rparr>)
        | Exhausted m \<Rightarrow>
            (case parent (node_at h m) of
               None \<Rightarrow> Some (None, walker)
             | Some p \<Rightarrow>
                 if p = walkerRoot walker then Some (None, walker)
                 else if nodeFilter walker p = Accept then Some (None, walker)
                 else siblingsLoop h walker next p))"

definition traverseSiblings ::
  "heap \<Rightarrow> TreeWalker \<Rightarrow> bool \<Rightarrow> (nat option \<times> TreeWalker) option" where
  "traverseSiblings h walker next =
     (if current walker = walkerRoot walker then Some (None, walker)
      else siblingsLoop h walker next (current walker))"

section \<open>Attributes\<close>

record Attr =
  attr_localName :: string
  attr_namespace :: "string option"
  attr_namespacePrefix :: "string option"
  attr_value :: string
  attr_element :: "nat option"

text \<open>
  What a call does, in program order: the records it queues with the observer, the
  attribute change steps it runs, and its stores to attributes and attribute lists.
  Modelled from the spec: the observer's \<open>queueAttributeMutationRecord\<close> and
  \<open>runAttributeChangeSteps\<close> are collaborators outside the sources at hand; the model
  records each call with its arguments.
\<close>

datatype effect =
    QueuedAttributeMutationRecord nat string "string option" "string option"
  | RanAttributeChangeSteps nat string "string option" "string option" "string option"
  | StoredValue nat string
  | StoredElement nat "nat option"
  | StoredAttributeList nat "nat list"

record attr_state =
  attrs :: "nat \<Rightarrow> Attr"
  attributeList :: "nat \<Rightarrow> nat list"
  history :: "effect list"

definition queueAttributeMutationRecord ::
  "nat \<Rightarrow> string \<Rightarrow> string option \<Rightarrow> string option \<Rightarrow> attr_state \<Rightarrow> attr_state" where
  "queueAttributeMutationRecord e ln ns oldValue s =
     s\<lparr>history := history s @ [QueuedAttributeMutationRecord e ln ns oldValue]\<rparr>"

definition runAttributeChangeSteps ::
  "nat \<Rightarrow> string \<Rightarrow> string option \<Rightarrow> string option \<Rightarrow> string option \<Rightarrow> attr_state \<Rightarrow> attr_state" where
  "runAttributeChangeSteps e ln oldValue newValue ns s =
     s\<lparr>history := history s @ [RanAttributeChangeSteps e ln oldValue newValue ns]\<rparr>"

definition storeValue :: "nat \<Rightarrow> string \<Rightarrow> attr_state \<Rightarrow> attr_state" where
  "storeValue a v s =
     s\<lparr>attrs := (attrs s)(a := (attrs s a)\<lparr>attr_value := v\<rparr>),
       history := history s @ [StoredValue a v]\<rparr>"

definition storeElement :: "nat \<Rightarrow> nat option \<Rightarrow> attr_state \<Rightarrow> attr_state" where
  "storeElement a e s =
     s\<lparr>attrs := (attrs s)(a := (attrs s a)\<lparr>attr_element := e\<rparr>),
       history := history s @ [StoredElement a e]\<rparr>"

definition storeAttributeList :: "nat \<Rightarrow> nat list \<Rightarrow> attr_state \<Rightarrow> attr_state" where
  "storeAttributeList e as s =
     s\<lparr>attributeList := (attributeList s)(e := as),
       history := history s @ [StoredAttributeList e as]\<rparr>"

definition has :: "nat \<Rightarrow> nat \<Rightarrow> attr_state \<Rightarrow> bool" where
  "has a e s = (a \<in> set (attributeList s e))"

definition change :: "nat \<Rightarrow> nat \<Rightarrow> string \<Rightarrow> attr_state \<Rightarrow> attr_state" where
  "change a e v s =
     (let s1 = queueAttributeMutationRecord e (attr_localName (attrs s a))
                 (attr_namespace (attrs s a)) (Some (attr_value (attrs s a))) s;
          s2 = runAttributeChangeSteps e (attr_localName (attrs s1 a))
                 (Some (attr_value (attrs s1 a))) (Some v) (attr_namespace (attrs s1 a)) s1
      in storeValue a v s2)"

definition append :: "nat \<Rightarrow> nat \<Rightarrow> attr_state \<Rightarrow> attr_state" where
  "append a e s =
     (let s1 = queueAttributeMutationRecord e (attr_localName (attrs s a))
                 (attr_namespace (attrs s a)) None s;
          s2 = runAttributeChangeSteps e (attr_localName (attrs s1 a)) None
                 (Some (attr_value (attrs s1 a))) (attr_namespace (attrs s1 a)) s1;
          s3 = storeAttributeList e (attributeList s2 e @ [a]) s2
      in storeElement a (Some e) s3)"

text \<open>
  Modelled from the spec: \<open>infra.list.replace\<close> is outside the sources at hand; it puts
  the new item in the place of every item equal to the old one.
\<close>

definition list_replace :: "nat list \<Rightarrow> nat \<Rightarrow> nat \<Rightarrow> nat list" where
  "list_replace xs old new = map (\<lambda>x. if x = old then new else x) xs"

definition replace :: "nat \<Rightarrow> nat \<Rightarrow> nat \<Rightarrow> attr_state \<Rightarrow> attr_state" where
  "replace oldAttr newAttr e s =
     (let s1 = queueAttributeMutationRecord e (attr_localName (attrs s oldAttr))
                 (attr_namespace (attrs s oldAttr)) (Some (attr_value (attrs s oldAttr))) s;
          s2 = runAttributeChangeSteps e (attr_localName (attrs s1 oldAttr))
                 (Some (attr_value (attrs s1 oldAttr))) (Some (attr_value (attrs s1 newAttr)))
                 (attr_namespace (attrs s1 oldAttr)) s1;
          s3 = storeAttributeList e (list_replace (attributeList s2 e) oldAttr newAttr) s2;
          s4 = storeElement oldAttr None s3
      in storeElement newAttr (Some e) s4)"

text \<open>The lookup loop: the first attribute of the list with the namespace and local name.\<close>

fun findAttribute :: "attr_state \<Rightarrow> string option \<Rightarrow> string \<Rightarrow> nat list \<Rightarrow> nat option" where
  "findAttribute s ns ln [] = None"
| "findAttribute s ns ln (a # as) =
     (if attr_namespace (attrs s a) = ns \<and> attr_localName (attrs s a) = ln then Some a
      else findAttribute s ns ln as)"

definition getAnAttributeByNamespaceAndLocalName ::
  "string \<Rightarrow> string \<Rightarrow> nat \<Rightarrow> attr_state \<Rightarrow> nat option" where
  "getAnAttributeByNamespaceAndLocalName namespace ln e s =
     (let ns = (if namespace = [] then None else Some namespace)
      in findAttribute s ns ln (attributeList s e))"

definition setAnAttribute :: "nat \<Rightarrow> nat \<Rightarrow> attr_state \<Rightarrow> (nat option \<times> attr_state) result" where
  "setAnAttribute a e s =
     (if attr_element (attrs s a) \<noteq> None \<and> attr_element (attrs s a) \<noteq> Some e
      then Thrown InUseAttributeError
      else
        let oldAttr = getAnAttributeByNamespaceAndLocalName
                        (case attr_namespace (attrs s a) of None \<Rightarrow> [] | Some ns \<Rightarrow> ns)
                        (attr_localName (attrs s a)) e s
        in if oldAttr = Some a then Returned (Some a, s)
           else
             (case oldAttr of
                Some old \<Rightarrow> Returned (oldAttr, replace old a e s)
              | None \<Rightarrow> Returned (oldAttr, append a e s)))"

section \<open>Adjacent insertion\<close>

text \<open>
  \<open>where.toLowerCase()\<close>: on the four position names only the ASCII letters matter, so the
  model lowers \<open>A\<close> to \<open>Z\<close> and leaves every other character as it is.
\<close>

definition toLowerChar :: "char \<Rightarrow> char" where
  "toLowerChar c =
     (let n = (of_char c :: nat) in if 65 \<le> n \<and> n \<le> 90 then char_of (n + 32) else c)"

definition toLowerCase :: "string \<Rightarrow> string" where
  "toLowerCase s = map toLowerChar s"

definition insertAdjacent :: "heap \<Rightarrow> nat \<Rightarrow> string \<Rightarrow> nat \<Rightarrow> (nat option \<times> heap) result" where
  "insertAdjacent h element whereTo n =
     (let w = toLowerCase whereTo in
      if w = ''beforebegin'' then
        (case parent (node_at h element) of
           None \<Rightarrow> Returned (None, h)
         | Some p \<Rightarrow> andThen (preInsert h n p (Some element)) (\<lambda>h1. Returned (Some n, h1)))
      else if w = ''afterbegin'' then
        andThen (preInsert h n element (firstChild h element)) (\<lambda>h1. Returned (Some n, h1))
      else if w = ''beforeend'' then
        andThen (preInsert h n element None) (\<lambda>h1. Returned (Some n, h1))
      else if w = ''afterend'' then
        (case parent (node_at h element) of
           None \<Rightarrow> Returned (None, h)
         | Some p \<Rightarrow>
             andThen (preInsert h n p (nextSibling h element)) (\<lambda>h1. Returned (Some n, h1)))
      else Thrown SyntaxError)"

section \<open>Example documents\<close>

definition elementNode :: "string \<Rightarrow> nat option \<Rightarrow> nat list \<Rightarrow> node" where
  "elementNode ln p cs =
     \<lparr>nodeType = ElementNode, localName = ln, parent = p, childNodes = cs, data = []\<rparr>"

definition textNode :: "nat option \<Rightarrow> string \<Rightarrow> node" where
  "textNode p d =
     \<lparr>nodeType = TextNode, localName = [], parent = p, childNodes = [], data = d\<rparr>"

definition doctypeNode :: "nat option \<Rightarrow> node" where
  "doctypeNode p =
     \<lparr>nodeType = DocumentTypeNode, localName = [], parent = p, childNodes = [], data = []\<rparr>"

text \<open>
  \<open>docA\<close>: \<open><root>hello<b/></root>\<close>, with a detached doctype (node 3) and a detached
  element \<open><n/>\<close> (node 4).
\<close>

definition docA :: heap where
  "docA = \<lparr>node_at = (\<lambda>_. elementNode [] None [])
            (0 := elementNode ''root'' None [1, 2],
             1 := textNode (Some 0) ''hello'',
             2 := elementNode ''b'' (Some 0) [],
             3 := doctypeNode None,
             4 := elementNode ''n'' None []),
          next_id = 5\<rparr>"

text \<open>\<open>docB\<close>: \<open><root><a/><b><x/></b></root>\<close>.\<close>

definition docB :: heap where
  "docB = \<lparr>node_at = (\<lambda>_. elementNode [] None [])
            (0 := elementNode ''root'' None [1, 2],
             1 := elementNode ''a'' (Some 0) [],
             2 := elementNode ''b'' (Some 0) [3],
             3 := elementNode ''x'' (Some 2) []),
          next_id = 4\<rparr>"

text \<open>\<open>docC\<close>: \<open><root>hello</root>\<close>.\<close>

definition docC :: heap where
  "docC = \<lparr>node_at = (\<lambda>_. elementNode [] None [])
            (0 := elementNode ''root'' None [1],
             1 := textNode (Some 0) ''hello''),
          next_id = 2\<rparr>"

text \<open>\<open>docD\<close>: \<open><root><a><e><x/></e></a><c/></root>\<close>.\<close>

definition docD :: heap where
  "docD = \<lparr>node_at = (\<lambda>_. elementNode [] None [])
            (0 := elementNode ''root'' None [1, 4],
             1 := elementNode ''a'' (Some 0) [2],
             2 := elementNode ''e'' (Some 1) [3],
             3 := elementNode ''x'' (Some 2) [],
             4 := elementNode ''c'' (Some 0) []),
          next_id = 5\<rparr>"

definition documentNode :: "nat list \<Rightarrow> node" where
  "documentNode cs =
     \<lparr>nodeType = DocumentNode, localName = [], parent = None, childNodes = cs, data = []\<rparr>"

text \<open>
  \<open>docE\<close>: a document (node 0) with a doctype (node 1) and the element
  \<open><root>hi</root>\<close> (nodes 2 and 3).
\<close>

definition docE :: heap where
  "docE = \<lparr>node_at = (\<lambda>_. elementNode [] None [])
            (0 := documentNode [1, 2],
             1 := doctypeNode (Some 0),
             2 := elementNode ''root'' (Some 0) [3],
             3 := textNode (Some 2) ''hi''),
          next_id = 4\<rparr>"

text \<open>Walkers over \<open>docB\<close>, rooted at node 0 and standing on node 3 (\<open><x/>\<close>).\<close>

definition acceptAll :: TreeWalker where
  "acceptAll = \<lparr>walkerRoot = 0, current = 3, nodeFilter = (\<lambda>n. Accept)\<rparr>"

definition skipAll :: TreeWalker where
  "skipAll = \<lparr>walkerRoot = 0, current = 3, nodeFilter = (\<lambda>n. Skip)\<rparr>"

text \<open>A walker whose filter accepts \<open><a/>\<close> (node 1) and skips every other node.\<close>

definition acceptOnlyA :: TreeWalker where
  "acceptOnlyA =
     \<lparr>walkerRoot = 0, current = 3, nodeFilter = (\<lambda>n. if n = 1 then Accept else Skip)\<rparr>"

text \<open>
  An element (0) with the attribute list \<open>id="old"\<close> (attribute 0) and \<open>class="c"\<close>
  (attribute 1), and nothing in the history.
\<close>

definition attrsA :: attr_state where
  "attrsA =
     \<lparr>attrs = (\<lambda>_. \<lparr>attr_localName = [], attr_namespace = None, attr_namespacePrefix = None,
                     attr_value = [], attr_element = None\<rparr>)
          (0 := \<lparr>attr_localName = ''id'', attr_namespace = None, attr_namespacePrefix = None,
                  attr_value = ''old'', attr_element = Some 0\<rparr>,
           1 := \<lparr>attr_localName = ''class'', attr_namespace = None, attr_namespacePrefix = None,
                  attr_value = ''c'', attr_element = Some 0\<rparr>),
      attributeList = (\<lambda>_. [])(0 := [0, 1]),
      history = []\<rparr>"

text \<open>What a call returned and the child list of node \<open>p\<close> afterwards.\<close>

definition childrenAfter :: "(nat option \<times> heap) result \<Rightarrow> nat \<Rightarrow> (nat option \<times> nat list) option" where
  "childrenAfter res p =
     (case res of Returned (r, h) \<Rightarrow> Some (r, childNodes (node_at h p)) | _ \<Rightarrow> None)"

section \<open>The sibling step in the words of the spec\<close>

text \<open>
  The outcome of the sibling step started at node \<open>n\<close>, rule by rule as the spec words it.
  The scan of the siblings and their descendants at the level of \<open>n\<close> accepts a node:
  that node is the outcome. The scan accepts none and ends at node \<open>m\<close>: the walk climbs
  to the parent of \<open>m\<close>; the outcome is null if that parent is null or is the root, and
  also if the filter accepts that parent; otherwise it is the outcome of the sibling step
  repeated at the parent.
\<close>

inductive siblingStepSpec ::
  "heap \<Rightarrow> TreeWalker \<Rightarrow> bool \<Rightarrow> nat \<Rightarrow> nat option \<Rightarrow> bool" where
  accepted:
    "scanSiblings h walker next (if next then nextSibling h n else previousSibling h n) n
       = Some (Accepted a) \<Longrightarrow>
     siblingStepSpec h walker next n (Some a)"
| parentNull:
    "scanSiblings h walker next (if next then nextSibling h n else previousSibling h n) n
       = Some (Exhausted m) \<Longrightarrow>
     parent (node_at h m) = None \<Longrightarrow>
     siblingStepSpec h walker next n None"
| parentRoot:
    "scanSiblings h walker next (if next then nextSibling h n else previousSibling h n) n
       = Some (Exhausted m) \<Longrightarrow>
     parent (node_at h m) = Some p \<Longrightarrow> p = walkerRoot walker \<Longrightarrow>
     siblingStepSpec h walker next n None"
| parentAccepted:
    "scanSiblings h walker next (if next then nextSibling h n else previousSibling h n) n
       = Some (Exhausted m) \<Longrightarrow>
     parent (node_at h m) = Some p \<Longrightarrow> p \<noteq> walkerRoot walker \<Longrightarrow>
     nodeFilter walker p = Accept \<Longrightarrow>
     siblingStepSpec h walker next n None"
| repeated:
    "scanSiblings h walker next (if next then nextSibling h n else previousSibling h n) n
       = Some (Exhausted m) \<Longrightarrow>
     parent (node_at h m) = Some p \<Longrightarrow> p \<noteq> walkerRoot walker \<Longrightarrow>
     nodeFilter walker p \<noteq> Accept \<Longrightarrow>
     siblingStepSpec h walker next p res \<Longrightarrow>
     siblingStepSpec h walker next n res"

text \<open>The walker after the step: standing on the returned node, or as it was.\<close>

definition walkerAfter :: "TreeWalker \<Rightarrow> nat option \<Rightarrow> TreeWalker" where
  "walkerAfter walker res = (case res of None \<Rightarrow> walker | Some a \<Rightarrow> walker\<lparr>current := a\<rparr>)"

section \<open>Properties\<close>

lemmas doc_simps = docA_def docB_def docC_def docD_def docE_def elementNode_def textNode_def
  doctypeNode_def documentNode_def eval_nat_numeral position_def pathTo_def index_def inclusiveAncestors_def
  rootNode_def root_def nodeLength_def isCharacterDataNode_def isDocumentTypeNode_def
  collapsed_def

subsection \<open>Setting the start and the end\<close>

text \<open>
  C5 fails on the code. The source hands \<open>node.nodeType\<close>, a number, to the doctype guard
  of step 1, which does not hold of a number, so a document-type node is let through: in
  the document \<open>docE\<close>, with the range from \<open>(root, 0)\<close> to \<open>(root, 1)\<close>, \<open>setTheStart\<close>
  and \<open>setTheEnd\<close> called with the doctype (node 1) and offset 0 return normally and put
  a boundary point on the doctype.
\<close>

theorem setTheStart_accepts_doctype:
  "isDocumentTypeNode docE 1 \<and>
   setTheStart docE \<lparr>rstart = (2, 0), rend = (2, 1)\<rparr> 1 0 =
     (None, \<lparr>rstart = (1, 0), rend = (2, 1)\<rparr>) \<and>
   setTheEnd docE \<lparr>rstart = (2, 0), rend = (2, 1)\<rparr> 1 0 =
     (None, \<lparr>rstart = (1, 0), rend = (1, 0)\<rparr>)"
  by code_simp

text \<open>No call of \<open>setTheStart\<close> or \<open>setTheEnd\<close> throws InvalidNodeType.\<close>

lemma setTheStart_never_InvalidNodeType:
  "fst (setTheStart h r n k) \<noteq> Some InvalidNodeTypeError \<and>
   fst (setTheEnd h r n k) \<noteq> Some InvalidNodeTypeError"
  by (simp add: setTheStart_def setTheEnd_def guardIsDocumentTypeNode_def Let_def
      split: option.split)

text \<open>
  Within the contract of \<open>position\<close>, that is for a node of the tree of the unmoved
  endpoint, and with the offset within the node's length, the moved endpoint is set to
  \<open>(n, k)\<close> and the unmoved endpoint is snapped to it exactly when \<open>(n, k)\<close> is on its wrong
  side or the root of \<open>n\<close> differs from the range's root. For a node of another tree the
  call of \<open>position\<close> fails before the roots are compared, and the range is left as it was.
\<close>

lemma setTheStart_setTheEnd_in_contract:
  "k \<le> nodeLength h n \<Longrightarrow> position h (n, k) (rend r) = Some pe \<Longrightarrow>
   setTheStart h r n k =
     (None, \<lparr>rstart = (n, k),
             rend = (if pe = After \<or> root h r \<noteq> rootNode h n then (n, k) else rend r)\<rparr>)"
  "k \<le> nodeLength h n \<Longrightarrow> position h (n, k) (rstart r) = Some ps \<Longrightarrow>
   setTheEnd h r n k =
     (None, \<lparr>rstart = (if ps = Before \<or> root h r \<noteq> rootNode h n then (n, k) else rstart r),
             rend = (n, k)\<rparr>)"
  by (simp_all add: setTheStart_def setTheEnd_def guardIsDocumentTypeNode_def Let_def)

lemma setTheStart_setTheEnd_other_tree:
  "k \<le> nodeLength h n \<Longrightarrow> rootNode h n \<noteq> rootNode h (endNode r) \<Longrightarrow>
   setTheStart h r n k = (Some ContractError, r)"
  "k \<le> nodeLength h n \<Longrightarrow> rootNode h n \<noteq> rootNode h (startNode r) \<Longrightarrow>
   setTheEnd h r n k = (Some ContractError, r)"
  by (simp_all add: setTheStart_def setTheEnd_def guardIsDocumentTypeNode_def Let_def
      position_def)

text \<open>
  C6, as amended. When \<open>setTheStart\<close> or \<open>setTheEnd\<close> is called with a non-doctype node and
  an offset greater than the node's length, the offset-bounds check comes before any
  assignment to an endpoint: the call throws IndexSize and leaves both endpoints of the
  range as they were.
\<close>

theorem offset_check_before_assignment:
  "\<not> isDocumentTypeNode h n \<Longrightarrow> k > nodeLength h n \<Longrightarrow>
     setTheStart h r n k = (Some IndexSizeError, r) \<and>
     setTheEnd h r n k = (Some IndexSizeError, r)"
  by (simp add: setTheStart_def setTheEnd_def guardIsDocumentTypeNode_def)

theorem offset_check_before_assignment_witness:
  "\<not> isDocumentTypeNode docA 1 \<and> 7 > nodeLength docA 1 \<and>
   setTheStart docA \<lparr>rstart = (0, 1), rend = (0, 2)\<rparr> 1 7 =
     (Some IndexSizeError, \<lparr>rstart = (0, 1), rend = (0, 2)\<rparr>) \<and>
   setTheEnd docA \<lparr>rstart = (0, 1), rend = (0, 2)\<rparr> 1 7 =
     (Some IndexSizeError, \<lparr>rstart = (0, 1), rend = (0, 2)\<rparr>)"
proof -
  have a: "\<not> isDocumentTypeNode docA 1" by (simp add: doc_simps)
  have b: "7 > nodeLength docA 1" by (simp add: doc_simps)
  from offset_check_before_assignment [OF a b] a b show ?thesis by simp
qed

text \<open>
  C6, as stated, fails. The range from \<open>(hello, 0)\<close> to \<open>(hello, 3)\<close> is not collapsed and
  the point \<open>(hello, 7)\<close> is After its end, so a collapsing assignment placed before the
  bounds check would move the end; yet \<open>setTheStart\<close> throws IndexSize and leaves the range
  uncollapsed. Likewise \<open>(hello, 7)\<close> is Before the start of the range from \<open>(root, 1)\<close> to
  \<open>(root, 2)\<close>, and \<open>setTheEnd\<close> throws IndexSize and leaves that range uncollapsed.
\<close>

theorem collapse_before_check_counterexample:
  "\<not> isDocumentTypeNode docA 1 \<and>
   position docA (1, 7) (1, 3) = Some After \<and>
   \<not> collapsed \<lparr>rstart = (1, 0), rend = (1, 3)\<rparr> \<and>
   setTheStart docA \<lparr>rstart = (1, 0), rend = (1, 3)\<rparr> 1 7 =
     (Some IndexSizeError, \<lparr>rstart = (1, 0), rend = (1, 3)\<rparr>) \<and>
   position docA (1, 7) (0, 1) = Some Before \<and>
   \<not> collapsed \<lparr>rstart = (0, 1), rend = (0, 2)\<rparr> \<and>
   setTheEnd docA \<lparr>rstart = (0, 1), rend = (0, 2)\<rparr> 1 7 =
     (Some IndexSizeError, \<lparr>rstart = (0, 1), rend = (0, 2)\<rparr>)"
  by code_simp

subsection \<open>Changing an attribute\<close>

text \<open>
  C7. For every element \<open>e\<close>, attribute \<open>a\<close> and new value \<open>v\<close>, what \<open>change\<close> adds to
  the history is, in this order: exactly one queued attribute mutation record, whose
  old-value payload is the value \<open>a\<close> stores at call entry; the attribute change steps with
  that old value and the new value \<open>v\<close>; and only then the store of \<open>v\<close> into \<open>a\<close>. After
  the call \<open>a\<close> stores \<open>v\<close>.
\<close>

theorem change_history:
  "history (change a e v s) =
     history s @
       [QueuedAttributeMutationRecord e (attr_localName (attrs s a)) (attr_namespace (attrs s a))
          (Some (attr_value (attrs s a))),
        RanAttributeChangeSteps e (attr_localName (attrs s a)) (Some (attr_value (attrs s a)))
          (Some v) (attr_namespace (attrs s a)),
        StoredValue a v] \<and>
   attr_value (attrs (change a e v s) a) = v"
  by (simp add: change_def queueAttributeMutationRecord_def runAttributeChangeSteps_def
      storeValue_def Let_def)

text \<open>The scenario of the spec: \<open>id\<close> changes from \<open>old\<close> to \<open>new\<close>.\<close>

lemma change_id_old_new:
  "history (change 0 0 ''new'' attrsA) =
     [QueuedAttributeMutationRecord 0 ''id'' None (Some ''old''),
      RanAttributeChangeSteps 0 ''id'' (Some ''old'') (Some ''new'') None,
      StoredValue 0 ''new'']"
  by (simp add: change_def queueAttributeMutationRecord_def runAttributeChangeSteps_def
      storeValue_def Let_def attrsA_def)

subsection \<open>Setting an attribute that is already there\<close>

lemma findAttribute_self:
  assumes "a \<in> set as"
    and "\<forall>b \<in> set as. attr_namespace (attrs s b) = attr_namespace (attrs s a) \<and>
            attr_localName (attrs s b) = attr_localName (attrs s a) \<longrightarrow> b = a"
  shows "findAttribute s (attr_namespace (attrs s a)) (attr_localName (attrs s a)) as = Some a"
  using assms by (induction as) auto

text \<open>
  In a list that is unique by (namespace, local name), the lookup by the key of a member
  yields that member, provided its namespace is null or a non-empty string (the lookup
  turns the empty string into null).
\<close>

lemma lookup_self:
  assumes "a \<in> set (attributeList s e)"
    and "\<forall>b \<in> set (attributeList s e). attr_namespace (attrs s b) = attr_namespace (attrs s a) \<and>
            attr_localName (attrs s b) = attr_localName (attrs s a) \<longrightarrow> b = a"
    and "attr_namespace (attrs s a) \<noteq> Some []"
  shows "getAnAttributeByNamespaceAndLocalName
           (case attr_namespace (attrs s a) of None \<Rightarrow> [] | Some ns \<Rightarrow> ns)
           (attr_localName (attrs s a)) e s = Some a"
proof -
  have "(if (case attr_namespace (attrs s a) of None \<Rightarrow> [] | Some ns \<Rightarrow> ns) = [] then None
         else Some (case attr_namespace (attrs s a) of None \<Rightarrow> [] | Some ns \<Rightarrow> ns))
        = attr_namespace (attrs s a)"
    using assms(3) by (cases "attr_namespace (attrs s a)") auto
  then show ?thesis
    using findAttribute_self [OF assms(1) assms(2)]
    by (simp add: getAnAttributeByNamespaceAndLocalName_def Let_def)
qed

text \<open>
  C10. For every element \<open>e\<close> and attribute \<open>a\<close> whose owning element is \<open>e\<close>, which is in
  the attribute list of \<open>e\<close>, and which the lookup by its (namespace, local name) yields,
  \<open>setAnAttribute\<close> returns \<open>a\<close> itself and throws nothing; the state after the call is the
  state before it, so no mutation record is queued and the attribute list of \<open>e\<close> and the
  owning element of \<open>a\<close> are unchanged.
\<close>

theorem setAnAttribute_present:
  assumes "attr_element (attrs s a) = Some e"
    and "a \<in> set (attributeList s e)"
    and "getAnAttributeByNamespaceAndLocalName
           (case attr_namespace (attrs s a) of None \<Rightarrow> [] | Some ns \<Rightarrow> ns)
           (attr_localName (attrs s a)) e s = Some a"
  shows "setAnAttribute a e s = Returned (Some a, s)"
  using assms by (simp add: setAnAttribute_def Let_def)

theorem setAnAttribute_present_witness:
  "attr_element (attrs attrsA 1) = Some 0 \<and> 1 \<in> set (attributeList attrsA 0) \<and>
   getAnAttributeByNamespaceAndLocalName [] ''class'' 0 attrsA = Some 1 \<and>
   setAnAttribute 1 0 attrsA = Returned (Some 1, attrsA)"
proof -
  have a: "attr_element (attrs attrsA 1) = Some 0" by (simp add: attrsA_def)
  have b: "1 \<in> set (attributeList attrsA 0)" by (simp add: attrsA_def)
  have k: "(case attr_namespace (attrs attrsA 1) of None \<Rightarrow> [] | Some ns \<Rightarrow> ns) = []"
    "attr_localName (attrs attrsA 1) = ''class''"
    by (simp_all add: attrsA_def)
  have c: "getAnAttributeByNamespaceAndLocalName [] ''class'' 0 attrsA = Some 1"
    by (simp add: getAnAttributeByNamespaceAndLocalName_def attrsA_def)
  from setAnAttribute_present [of attrsA 1 0] a b c k show ?thesis by simp
qed

subsection \<open>Adjacent insertion\<close>

text \<open>
  C8. With \<open>where\<close> compared after lower-casing, as the source does: \<open>insertAdjacent\<close>
  returns null and leaves the node graph alone when \<open>where\<close> is \<open>beforebegin\<close> or
  \<open>afterend\<close> and the element has no parent; it is the pre-insertion of the node into the
  parent before the element (\<open>beforebegin\<close>), into the element before its first child
  (\<open>afterbegin\<close>), into the element before null (\<open>beforeend\<close>), into the parent before the
  element's next sibling (\<open>afterend\<close>); and it throws SyntaxError for every other value.
\<close>

theorem insertAdjacent_cases:
  "(toLowerCase w \<in> {''beforebegin'', ''afterend''} \<and> parent (node_at h e) = None \<longrightarrow>
      insertAdjacent h e w n = Returned (None, h)) \<and>
   (toLowerCase w = ''beforebegin'' \<and> parent (node_at h e) = Some p \<longrightarrow>
      insertAdjacent h e w n =
        andThen (preInsert h n p (Some e)) (\<lambda>h1. Returned (Some n, h1))) \<and>
   (toLowerCase w = ''afterbegin'' \<longrightarrow>
      insertAdjacent h e w n =
        andThen (preInsert h n e (firstChild h e)) (\<lambda>h1. Returned (Some n, h1))) \<and>
   (toLowerCase w = ''beforeend'' \<longrightarrow>
      insertAdjacent h e w n =
        andThen (preInsert h n e None) (\<lambda>h1. Returned (Some n, h1))) \<and>
   (toLowerCase w = ''afterend'' \<and> parent (node_at h e) = Some p \<longrightarrow>
      insertAdjacent h e w n =
        andThen (preInsert h n p (nextSibling h e)) (\<lambda>h1. Returned (Some n, h1))) \<and>
   (toLowerCase w \<notin> {''beforebegin'', ''afterbegin'', ''beforeend'', ''afterend''} \<longrightarrow>
      insertAdjacent h e w n = Thrown SyntaxError)"
  by (auto simp add: insertAdjacent_def Let_def)

theorem insertAdjacent_cases_witness:
  "insertAdjacent docA 0 ''BeforeBegin'' 4 = Returned (None, docA) \<and>
   insertAdjacent docA 0 ''afterend'' 4 = Returned (None, docA) \<and>
   childrenAfter (insertAdjacent docA 2 ''beforebegin'' 4) 0 = Some (Some 4, [1, 4, 2]) \<and>
   childrenAfter (insertAdjacent docA 0 ''afterbegin'' 4) 0 = Some (Some 4, [4, 1, 2]) \<and>
   childrenAfter (insertAdjacent docA 0 ''beforeend'' 4) 0 = Some (Some 4, [1, 2, 4]) \<and>
   childrenAfter (insertAdjacent docA 1 ''afterend'' 4) 0 = Some (Some 4, [1, 4, 2]) \<and>
   insertAdjacent docA 2 ''sideways'' 4 = Thrown SyntaxError"
proof -
  have w: "toLowerCase ''BeforeBegin'' \<in> {''beforebegin'', ''afterend''}"
    "toLowerCase ''afterend'' \<in> {''beforebegin'', ''afterend''}"
    "toLowerCase ''beforebegin'' = ''beforebegin''"
    "toLowerCase ''afterbegin'' = ''afterbegin''"
    "toLowerCase ''beforeend'' = ''beforeend''"
    "toLowerCase ''afterend'' = ''afterend''"
    "toLowerCase ''sideways'' \<notin> {''beforebegin'', ''afterbegin'', ''beforeend'', ''afterend''}"
    by code_simp+
  have p: "parent (node_at docA 0) = None" "parent (node_at docA 2) = Some 0"
    "parent (node_at docA 1) = Some 0"
    by (simp_all add: doc_simps)
  have e1: "childrenAfter (andThen (preInsert docA 4 0 (Some 2)) (\<lambda>h1. Returned (Some 4, h1))) 0
              = Some (Some 4, [1, 4, 2])"
    by code_simp
  have e2: "childrenAfter (andThen (preInsert docA 4 0 (firstChild docA 0))
              (\<lambda>h1. Returned (Some 4, h1))) 0 = Some (Some 4, [4, 1, 2])"
    by code_simp
  have e3: "childrenAfter (andThen (preInsert docA 4 0 None) (\<lambda>h1. Returned (Some 4, h1))) 0
              = Some (Some 4, [1, 2, 4])"
    by code_simp
  have e4: "childrenAfter (andThen (preInsert docA 4 0 (nextSibling docA 1))
              (\<lambda>h1. Returned (Some 4, h1))) 0 = Some (Some 4, [1, 4, 2])"
    by code_simp
  show ?thesis
    using w p e1 e2 e3 e4
      insertAdjacent_cases [of "''BeforeBegin''" docA 0 4 0]
      insertAdjacent_cases [of "''afterend''" docA 0 4 0]
      insertAdjacent_cases [of "''beforebegin''" docA 2 4 0]
      insertAdjacent_cases [of "''afterbegin''" docA 0 4 0]
      insertAdjacent_cases [of "''beforeend''" docA 0 4 0]
      insertAdjacent_cases [of "''afterend''" docA 1 4 0]
      insertAdjacent_cases [of "''sideways''" docA 2 4 0]
    by simp
qed

subsection \<open>Stepping to a sibling\<close>

text \<open>The sibling loop of the source returns exactly what the spec's rules give.\<close>

lemma spec_loop:
  "siblingStepSpec h walker nxt n res \<Longrightarrow>
   siblingsLoop h walker nxt n = Some (res, walkerAfter walker res)"
proof (induction rule: siblingStepSpec.induct)
  case (accepted h walker nxt n a)
  then show ?case by (subst siblingsLoop.simps) (simp add: walkerAfter_def)
next
  case (parentNull h walker nxt n m)
  then show ?case by (subst siblingsLoop.simps) (simp add: walkerAfter_def)
next
  case (parentRoot h walker nxt n m p)
  then show ?case by (subst siblingsLoop.simps) (simp add: walkerAfter_def)
next
  case (parentAccepted h walker nxt n m p)
  then show ?case by (subst siblingsLoop.simps) (simp add: walkerAfter_def)
next
  case (repeated h walker nxt n m p res)
  then show ?case by (subst siblingsLoop.simps) simp
qed

lemma loop_spec:
  assumes "siblingsLoop h walker nxt n = Some y"
  shows "siblingStepSpec h walker nxt n (fst y) \<and> snd y = walkerAfter walker (fst y)"
proof (rule siblingsLoop.raw_induct
    [where P = "\<lambda>h walker nxt n y.
       siblingStepSpec h walker nxt n (fst y) \<and> snd y = walkerAfter walker (fst y)",
     OF _ assms])
  fix loop h walker nxt n y
  assume ih: "\<And>h walker nxt n y. loop h walker nxt n = Some y \<Longrightarrow>
      siblingStepSpec h walker nxt n (fst y) \<and> snd y = walkerAfter walker (fst y)"
    and body: "Option.bind
       (scanSiblings h walker nxt (if nxt then nextSibling h n else previousSibling h n) n)
       (\<lambda>sc. case sc of
          Accepted a \<Rightarrow> Some (Some a, walker\<lparr>current := a\<rparr>)
        | Exhausted m \<Rightarrow>
            (case parent (node_at h m) of
               None \<Rightarrow> Some (None, walker)
             | Some p \<Rightarrow>
                 if p = walkerRoot walker then Some (None, walker)
                 else if nodeFilter walker p = Accept then Some (None, walker)
                 else loop h walker nxt p)) = Some y"
  let ?sib = "if nxt then nextSibling h n else previousSibling h n"
  from body obtain sc where sc: "scanSiblings h walker nxt ?sib n = Some sc"
    by (cases "scanSiblings h walker nxt ?sib n") auto
  show "siblingStepSpec h walker nxt n (fst y) \<and> snd y = walkerAfter walker (fst y)"
  proof (cases sc)
    case (Accepted a)
    with body sc have "y = (Some a, walker\<lparr>current := a\<rparr>)" by simp
    with sc Accepted siblingStepSpec.accepted [of h walker nxt n a] show ?thesis
      by (simp add: walkerAfter_def)
  next
    case (Exhausted m)
    show ?thesis
    proof (cases "parent (node_at h m)")
      case None
      with body sc Exhausted have "y = (None, walker)" by simp
      with sc Exhausted None siblingStepSpec.parentNull [of h walker nxt n m] show ?thesis
        by (simp add: walkerAfter_def)
    next
      case (Some p)
      show ?thesis
      proof (cases "p = walkerRoot walker")
        case True
        with body sc Exhausted Some have "y = (None, walker)" by simp
        with sc Exhausted Some True siblingStepSpec.parentRoot [of h walker nxt n m p]
        show ?thesis by (simp add: walkerAfter_def)
      next
        case nr: False
        show ?thesis
        proof (cases "nodeFilter walker p = Accept")
          case True
          with body sc Exhausted Some nr have "y = (None, walker)" by simp
          with sc Exhausted Some nr True siblingStepSpec.parentAccepted [of h walker nxt n m p]
          show ?thesis by (simp add: walkerAfter_def)
        next
          case False
          with body sc Exhausted Some nr have "loop h walker nxt p = Some y" by simp
          from ih [OF this]
          have "siblingStepSpec h walker nxt p (fst y)" "snd y = walkerAfter walker (fst y)"
            by simp_all
          with sc Exhausted Some nr False
            siblingStepSpec.repeated [of h walker nxt n m p "fst y"]
          show ?thesis by simp
        qed
      qed
    qed
  qed
qed

text \<open>
  C9. When the current node is not the root, \<open>traverseSiblings\<close> returns a node or null,
  and leaves the walker on the returned node or as it was, exactly as the rules of the
  sibling step give from the current node: a node the scan at a level accepts is returned;
  when the scan at a level accepts none, the walk climbs to the parent of the node the scan
  ended at, returns null if that parent is null or is the root, returns null as well if
  the filter accepts that parent, and otherwise repeats the sibling search at the parent.
\<close>

theorem siblings_climb:
  "current walker \<noteq> walkerRoot walker \<Longrightarrow>
   (siblingStepSpec h walker nxt (current walker) res \<longleftrightarrow>
    traverseSiblings h walker nxt = Some (res, walkerAfter walker res))"
  using spec_loop [of h walker nxt "current walker" res]
    loop_spec [of h walker nxt "current walker" "(res, walkerAfter walker res)"]
  by (auto simp add: traverseSiblings_def)

theorem siblings_climb_witness:
  "current acceptOnlyA \<noteq> walkerRoot acceptOnlyA \<and>
   siblingStepSpec docB acceptOnlyA False (current acceptOnlyA) (Some 1) \<and>
   traverseSiblings docB acceptOnlyA False = Some (Some 1, acceptOnlyA\<lparr>current := 1\<rparr>) \<and>
   siblingStepSpec docB acceptAll True (current acceptAll) None \<and>
   traverseSiblings docB acceptAll True = Some (None, acceptAll) \<and>
   siblingStepSpec docB skipAll True (current skipAll) None \<and>
   traverseSiblings docB skipAll True = Some (None, skipAll)"
proof -
  have c: "current acceptOnlyA \<noteq> walkerRoot acceptOnlyA" "current acceptAll \<noteq> walkerRoot acceptAll"
    "current skipAll \<noteq> walkerRoot skipAll"
    "current acceptOnlyA = 3" "current acceptAll = 3" "current skipAll = 3"
    by (simp_all add: acceptOnlyA_def acceptAll_def skipAll_def)
  have s: "nextSibling docB 3 = None" "nextSibling docB 2 = None"
    "previousSibling docB 3 = None" "previousSibling docB 2 = Some 1"
    by (simp_all add: nextSibling_def previousSibling_def docB_def elementNode_def)
  have p: "parent (node_at docB 3) = Some 2" "parent (node_at docB 2) = Some 0"
    by (simp_all add: docB_def elementNode_def)
  have x3: "scanSiblings docB w b None 3 = Some (Exhausted 3)"
    "scanSiblings docB w b None 2 = Some (Exhausted 2)" for w b
    by (simp_all add: scanSiblings.simps)
  have xa: "scanSiblings docB acceptOnlyA False (Some 1) 2 = Some (Accepted 1)"
    apply (subst scanSiblings.simps)
    apply (simp add: acceptOnlyA_def)
    done
  have f: "nodeFilter acceptOnlyA 2 \<noteq> Accept" "nodeFilter acceptAll 2 = Accept"
    "nodeFilter skipAll 2 \<noteq> Accept"
    "2 \<noteq> walkerRoot acceptOnlyA" "2 \<noteq> walkerRoot acceptAll" "2 \<noteq> walkerRoot skipAll"
    "0 = walkerRoot skipAll"
    by (simp_all add: acceptOnlyA_def acceptAll_def skipAll_def)
  have a2: "siblingStepSpec docB acceptOnlyA False 2 (Some 1)"
    using siblingStepSpec.accepted [of docB acceptOnlyA False 2 1] s xa by simp
  have a3: "siblingStepSpec docB acceptOnlyA False 3 (Some 1)"
    using siblingStepSpec.repeated [of docB acceptOnlyA False 3 3 2 "Some 1"]
      s x3 [of acceptOnlyA False] p f a2 by simp
  have b3: "siblingStepSpec docB acceptAll True 3 None"
    using siblingStepSpec.parentAccepted [of docB acceptAll True 3 3 2]
      s x3 [of acceptAll True] p f by simp
  have k2: "siblingStepSpec docB skipAll True 2 None"
    using siblingStepSpec.parentRoot [of docB skipAll True 2 2 0]
      s x3 [of skipAll True] p f by simp
  have k3: "siblingStepSpec docB skipAll True 3 None"
    using siblingStepSpec.repeated [of docB skipAll True 3 3 2 None]
      s x3 [of skipAll True] p f k2 by simp
  from siblings_climb [OF c(1), of docB False "Some 1"] a3 c
  have t1: "traverseSiblings docB acceptOnlyA False = Some (Some 1, acceptOnlyA\<lparr>current := 1\<rparr>)"
    by (simp add: walkerAfter_def)
  from siblings_climb [OF c(2), of docB True None] b3 c
  have t2: "traverseSiblings docB acceptAll True = Some (None, acceptAll)"
    by (simp add: walkerAfter_def)
  from siblings_climb [OF c(3), of docB True None] k3 c
  have t3: "traverseSiblings docB skipAll True = Some (None, skipAll)"
    by (simp add: walkerAfter_def)
  from c a3 b3 k3 t1 t2 t3 show ?thesis by simp
qed

subsection \<open>Cloning and extracting the contents of a range\<close>

text \<open>
  C1 fails on the code. In \<open><root><a/><b><x/></b></root>\<close>, cloning the contents of the
  range from \<open>(root, 0)\<close> to \<open>(b, 1)\<close> returns, and afterwards \<open><b>\<close> (node 2) has lost
  its child \<open><x/>\<close> (node 3), whose parent is now a node of the fragment: on the end side
  \<open>cloneTheContents\<close> calls \<open>extract\<close> on the sub-range.
\<close>

theorem cloneTheContents_mutates_source:
  "(case cloneTheContents 3 docB \<lparr>rstart = (0, 0), rend = (2, 1)\<rparr> of
      Returned (fragment, h, r) \<Rightarrow>
        childNodes (node_at docB 2) = [3] \<and> childNodes (node_at h 2) = [] \<and>
        parent (node_at docB 3) = Some 2 \<and> parent (node_at h 3) = Some 6 \<and>
        rootNode h 6 = fragment
    | _ \<Rightarrow> False)"
  by code_simp

text \<open>
  C2 fails on the code. In \<open><root>hello</root>\<close> with the range from \<open>(root, 0)\<close> to
  \<open>(hello, 3)\<close>, the text node is the child at index 0 of the common ancestor and is
  partially contained (on the end side), yet the loop finds no last partially contained
  child: \<open>extract\<close> and \<open>cloneTheContents\<close> return an empty fragment and \<open>extract\<close>
  leaves the text as it is.
\<close>

theorem last_partially_contained_misses_index_0:
  "commonAncestorFrom 3 docC 1 0 = Returned 0 \<and>
   childNodes (node_at docC 0) = [1] \<and>
   isPartiallyContained docC 1 \<lparr>rstart = (0, 0), rend = (1, 3)\<rparr> \<and>
   lastPartiallyContained docC \<lparr>rstart = (0, 0), rend = (1, 3)\<rparr> 0 = None \<and>
   (case extractRange 2 docC \<lparr>rstart = (0, 0), rend = (1, 3)\<rparr> of
      Returned (fragment, h, r) \<Rightarrow>
        childNodes (node_at h fragment) = [] \<and> data (node_at h 1) = ''hello''
    | _ \<Rightarrow> False) \<and>
   (case cloneTheContents 2 docC \<lparr>rstart = (0, 0), rend = (1, 3)\<rparr> of
      Returned (fragment, h, r) \<Rightarrow> childNodes (node_at h fragment) = []
    | _ \<Rightarrow> False)"
  by code_simp

text \<open>
  C3 fails on the code. In \<open><root><a><e><x/></e></a><c/></root>\<close> with the range from
  \<open>(e, 0)\<close> to \<open>(c, 0)\<close>, the first partially contained child is \<open><a>\<close> (node 1), not a
  text-like node; the first node \<open>extract\<close> and \<open>cloneTheContents\<close> put into the fragment
  is a clone of the start node \<open><e>\<close>, not of \<open><a>\<close>.
\<close>

theorem first_clone_is_of_start_node:
  "firstPartiallyContained docD \<lparr>rstart = (2, 0), rend = (4, 0)\<rparr> 0 = Some 1 \<and>
   \<not> isCharacterDataNode docD 1 \<and>
   localName (node_at docD 1) = ''a'' \<and>
   (case extractRange 3 docD \<lparr>rstart = (2, 0), rend = (4, 0)\<rparr> of
      Returned (fragment, h, r) \<Rightarrow>
        map (\<lambda>c. localName (node_at h c)) (childNodes (node_at h fragment)) = [''e'', ''c'']
    | _ \<Rightarrow> False) \<and>
   (case cloneTheContents 3 docD \<lparr>rstart = (2, 0), rend = (4, 0)\<rparr> of
      Returned (fragment, h, r) \<Rightarrow>
        map (\<lambda>c. localName (node_at h c)) (childNodes (node_at h fragment)) = [''e'', ''c'']
    | _ \<Rightarrow> False)"
  by code_simp


end
